theory Spec2Isabelle
  imports Complex_Main "HOL-Library.Char_ord" "HOL-Library.List_Lexorder"
begin

section \<open>Audiobook chunker (\<^verbatim>\<open>audiobook-processor.py\<close>)\<close>

text \<open>
  Numbers. Python's \<^verbatim>\<open>int\<close> is \<^typ>\<open>int\<close>. Python's \<^verbatim>\<open>float\<close> is modelled by
  \<^typ>\<open>real\<close>: rounding, infinities and NaN are outside the model, every float
  operation is the exact operation on reals. The concrete speed factors evaluated below
  (0.5, 1.5, 3, 4, 6, their reciprocals' remainders and their remainders modulo 2) are
  exact in binary floating point, so the float computation gives the same values.

  Effects. The script prints to standard output and spawns external processes. Both are
  recorded, in program order, in a list of events. What the outside world answers (the
  probe's output, the exit status of each transform, whether a directory can be made)
  comes from an environment record.
\<close>

subsection \<open>Errors, processes, messages\<close>

datatype py_error = ValueError | ZeroDivisionError | OSError

datatype outcome = Returned | Raised py_error

text \<open>The part of \<^verbatim>\<open>subprocess.CompletedProcess\<close> that \<^verbatim>\<open>get_duration\<close> reads.\<close>

record completed_process =
  stdout :: string
  stderr :: string

text \<open>
  The argument list of one transform invocation, field by field:
  \<^verbatim>\<open>ffmpeg -y -ss SS -i INPUT -t T [-filter:a CHAIN] -b:a Qk -map_metadata -1 -map a -ar AR OUT\<close>.
  The chain \<^verbatim>\<open>atempo=m1,atempo=m2,...\<close> is kept as the list of its multipliers, and
  the output path \<^verbatim>\<open>join(output_dir, f"{stem}_{i + 1:03}.mp3")\<close> as the directory and
  the number \<open>i + 1\<close>.
\<close>

record ffmpeg_cmd =
  ss :: int
  inp :: string
  t :: real
  filter_a :: "real list option"
  bitrate :: string
  ar :: string
  out_dir :: string
  out_index :: int

text \<open>
  \<^verbatim>\<open>subprocess.run(cmd, check=True)\<close>: exit status 0, a non-zero status (raised as
  \<^verbatim>\<open>CalledProcessError\<close>, which the loop catches), or the process cannot be started
  (an \<^verbatim>\<open>OSError\<close>, which nothing catches).
\<close>

datatype run_result = Exit0 | CalledProcessError int | SpawnFailed

text \<open>One constructor per \<^verbatim>\<open>print\<close> of the script.\<close>

datatype message =
    TotalDurationSeconds string
  | ProbeError string
  | CannotDetermine string
  | TotalDurationMinutes real
  | ProcessingChunks int int
  | SpeedTooSmall
  | ProcessingChunk int int
  | CommandEcho ffmpeg_cmd
  | ChunkError int

datatype event = Print message | Invoke ffmpeg_cmd

record env =
  mkdir_ok :: "string \<Rightarrow> bool"
  ffprobe :: "string \<Rightarrow> completed_process option"
  py_float :: "string \<Rightarrow> real option"
  ffmpeg :: "ffmpeg_cmd \<Rightarrow> run_result"

subsection \<open>\<^verbatim>\<open>get_duration\<close>\<close>

text \<open>
  \<^verbatim>\<open>str.rstrip()\<close> removes trailing whitespace. On ASCII text the whitespace characters
  of Python are the codes 9 to 13, 28 to 31 and 32.
\<close>

definition py_isspace :: "char \<Rightarrow> bool" where
  "py_isspace c \<longleftrightarrow>
     (let n = (of_char c :: nat) in (9 \<le> n \<and> n \<le> 13) \<or> (28 \<le> n \<and> n \<le> 32))"

definition rstrip :: "string \<Rightarrow> string" where
  "rstrip s = rev (dropWhile py_isspace (rev s))"

text \<open>
  The probe. \<open>ffprobe e f = None\<close> is a probe that cannot be started. The conversion
  \<^verbatim>\<open>float(...)\<close> is the environment's \<open>py_float\<close>; \<open>None\<close> is its \<^verbatim>\<open>ValueError\<close>.
  The first print happens before the conversion.
\<close>

definition get_duration :: "env \<Rightarrow> string \<Rightarrow> message list \<times> (py_error + real)" where
  "get_duration e input_file =
     (case ffprobe e input_file of
        None \<Rightarrow> ([], Inl OSError)
      | Some result \<Rightarrow>
          if rstrip (stdout result) \<noteq> [] then
            ([TotalDurationSeconds (rstrip (stdout result))],
             (case py_float e (rstrip (stdout result)) of
                None \<Rightarrow> Inl ValueError
              | Some d \<Rightarrow> Inr d))
          else
            ((if stderr result \<noteq> [] then [ProbeError (stderr result)] else []), Inr 0))"

subsection \<open>Chunk planning\<close>

text \<open>
  The loop \<^verbatim>\<open>for i in range(start_chunk - 1, total_chunks)\<close> computes, for each \<open>i\<close>,
  \<^verbatim>\<open>start_time = i * chunk_seconds\<close> and
  \<^verbatim>\<open>duration = min(chunk_seconds, total_duration - start_time)\<close>. The plan is the list of
  these records in loop order; \<open>index\<close> is the 1-based number \<open>i + 1\<close> the script prints
  and puts in the file name.
\<close>

record chunk =
  index :: int
  start_time :: int
  duration :: real

definition total_chunks :: "real \<Rightarrow> int \<Rightarrow> int \<Rightarrow> int option \<Rightarrow> int" where
  "total_chunks total_duration chunk_seconds start_chunk max_chunks =
     (let n = \<lceil>total_duration / of_int chunk_seconds\<rceil>
      in case max_chunks of
           None \<Rightarrow> n
         | Some m \<Rightarrow> min n (start_chunk + m - 1))"

definition plan_chunk :: "real \<Rightarrow> int \<Rightarrow> int \<Rightarrow> chunk" where
  "plan_chunk total_duration chunk_seconds i =
     \<lparr>index = i + 1,
      start_time = i * chunk_seconds,
      duration = min (of_int chunk_seconds) (total_duration - of_int (i * chunk_seconds))\<rparr>"

text \<open>
  \<open>chunk_plan\<close> takes the chunk length in minutes, as the script does. The division in
  \<open>total_chunks\<close> raises for \<open>chunk_duration = 0\<close>; \<open>process_audiobook\<close> below has
  that branch, and the plan is only computed after it.
\<close>

definition chunk_plan :: "real \<Rightarrow> int \<Rightarrow> int \<Rightarrow> int option \<Rightarrow> chunk list" where
  "chunk_plan total_duration chunk_duration start_chunk max_chunks =
     (let chunk_seconds = chunk_duration * 60
      in map (plan_chunk total_duration chunk_seconds)
           [start_chunk - 1 ..
            total_chunks total_duration chunk_seconds start_chunk max_chunks - 1])"

subsection \<open>Speed filter\<close>

text \<open>
  Python's \<^verbatim>\<open>x % y\<close> on floats takes the sign of \<open>y\<close>: it is \<open>x - y * floor (x / y)\<close>.
\<close>

definition py_fmod :: "real \<Rightarrow> real \<Rightarrow> real" where
  "py_fmod x y = x - y * of_int \<lfloor>x / y\<rfloor>"

text \<open>
  The guard \<^verbatim>\<open>(speed_factor <= 0.0) or ((1 / speed_factor % 2) <= 0.0)\<close>. The \<^verbatim>\<open>or\<close>
  does not evaluate its right side when the left holds, so \<open>1 / 0\<close> is never computed.
\<close>

definition speed_invalid :: "real \<Rightarrow> bool" where
  "speed_invalid speed_factor \<longleftrightarrow>
     speed_factor \<le> 0 \<or> py_fmod (1 / speed_factor) 2 \<le> 0"

text \<open>
  The three branches under \<^verbatim>\<open>if speed_factor != 1.0\<close>. A list times a negative number
  is the empty list in Python, as \<open>replicate (nat n)\<close> is here.
\<close>

definition tempo_chain :: "real \<Rightarrow> real list" where
  "tempo_chain speed_factor =
     (if speed_factor > 2 then
        replicate (nat \<lfloor>speed_factor / 2\<rfloor>) 2 @ [py_fmod speed_factor 2]
      else if speed_factor < 1 / 2 then
        replicate (nat \<lfloor>2 / speed_factor\<rfloor>) (1 / 2) @ [1 / py_fmod (1 / speed_factor) 2]
      else [speed_factor])"

definition speed_filter :: "real \<Rightarrow> real list option" where
  "speed_filter speed_factor =
     (if speed_factor \<noteq> 1 then Some (tempo_chain speed_factor) else None)"

subsection \<open>\<^verbatim>\<open>process_audiobook\<close>\<close>

record args =
  input_file :: string
  output_dir :: string
  chunk_duration :: int
  speed_factor :: real
  start_chunk :: int
  max_chunks :: "int option"
  audio_quality :: string
  sample_rate :: string

definition build_cmd :: "args \<Rightarrow> chunk \<Rightarrow> ffmpeg_cmd" where
  "build_cmd a c =
     \<lparr>ss = start_time c,
      inp = input_file a,
      t = duration c,
      filter_a = speed_filter (speed_factor a),
      bitrate = audio_quality a,
      ar = sample_rate a,
      out_dir = output_dir a,
      out_index = index c\<rparr>"

text \<open>
  The loop body, once per planned chunk. The speed check is inside the loop: it runs
  when the first chunk is reached, and its \<^verbatim>\<open>return\<close> leaves the whole function.
  \<open>n\<close> is \<^verbatim>\<open>total_chunks\<close>, used only in the progress line.
\<close>

fun process_chunks :: "env \<Rightarrow> args \<Rightarrow> int \<Rightarrow> chunk list \<Rightarrow> event list \<times> outcome" where
  "process_chunks e a n [] = ([], Returned)"
| "process_chunks e a n (c # cs) =
     (if speed_invalid (speed_factor a) then ([Print SpeedTooSmall], Returned)
      else
        let cmd = build_cmd a c;
            started = [Print (ProcessingChunk (index c) n), Print (CommandEcho cmd), Invoke cmd]
        in case ffmpeg e cmd of
             Exit0 \<Rightarrow>
               (let (evs, r) = process_chunks e a n cs in (started @ evs, r))
           | CalledProcessError rc \<Rightarrow>
               (let (evs, r) = process_chunks e a n cs
                in (started @ [Print (ChunkError (index c))] @ evs, r))
           | SpawnFailed \<Rightarrow> (started, Raised OSError))"

definition process_audiobook :: "env \<Rightarrow> args \<Rightarrow> event list \<times> outcome" where
  "process_audiobook e a =
     (if \<not> mkdir_ok e (output_dir a) then ([], Raised OSError)
      else
        case get_duration e (input_file a) of
          (msgs, Inl err) \<Rightarrow> (map Print msgs, Raised err)
        | (msgs, Inr total_duration) \<Rightarrow>
            if total_duration = 0 then
              (map Print msgs @ [Print (CannotDetermine (input_file a))], Returned)
            else if chunk_duration a * 60 = 0 then (map Print msgs, Raised ZeroDivisionError)
            else
              let n = total_chunks total_duration (chunk_duration a * 60)
                        (start_chunk a) (max_chunks a);
                  (evs, r) = process_chunks e a n
                        (chunk_plan total_duration (chunk_duration a)
                           (start_chunk a) (max_chunks a))
              in (map Print msgs
                    @ [Print (TotalDurationMinutes (total_duration / 60)),
                       Print (ProcessingChunks (start_chunk a) n)]
                    @ evs, r))"

text \<open>The transform invocations of a run, and its printed messages.\<close>

definition invocations :: "event list \<Rightarrow> ffmpeg_cmd list" where
  "invocations evs = concat (map (\<lambda>ev. case ev of Invoke c \<Rightarrow> [c] | Print m \<Rightarrow> []) evs)"

definition printed :: "event list \<Rightarrow> message list" where
  "printed evs = concat (map (\<lambda>ev. case ev of Print m \<Rightarrow> [m] | Invoke c \<Rightarrow> []) evs)"

section \<open>Source concatenator (\<^verbatim>\<open>gather_source_code.py\<close>)\<close>

subsection \<open>Paths\<close>

text \<open>
  \<^verbatim>\<open>pathlib.Path(filepath).suffix\<close> for POSIX paths, as pathlib computes it up to
  Python 3.12: the path is split at \<open>/\<close>, empty and \<open>.\<close> components are dropped, the
  name is the last component left, and the suffix is the name from its last dot on when
  that dot is neither the first nor the last character of the name.
\<close>

fun split_on :: "char \<Rightarrow> string \<Rightarrow> string list" where
  "split_on c [] = [[]]"
| "split_on c (x # xs) =
     (if x = c then [] # split_on c xs
      else case split_on c xs of
             [] \<Rightarrow> [[x]]
           | w # ws \<Rightarrow> (x # w) # ws)"

definition path_name :: "string \<Rightarrow> string" where
  "path_name p =
     (case filter (\<lambda>x. x \<noteq> [] \<and> x \<noteq> ''.'') (split_on (CHR ''/'') p) of
        [] \<Rightarrow> []
      | x # xs \<Rightarrow> last (x # xs))"

text \<open>\<^verbatim>\<open>str.rfind\<close>: the index of the last occurrence, \<open>None\<close> for Python's \<open>-1\<close>.\<close>

fun rfind :: "char \<Rightarrow> string \<Rightarrow> nat option" where
  "rfind c [] = None"
| "rfind c (x # xs) =
     (case rfind c xs of
        Some i \<Rightarrow> Some (Suc i)
      | None \<Rightarrow> if x = c then Some 0 else None)"

definition suffix :: "string \<Rightarrow> string" where
  "suffix p =
     (let name = path_name p
      in case rfind (CHR ''.'') name of
           None \<Rightarrow> []
         | Some i \<Rightarrow> if 0 < i \<and> Suc i < length name then drop i name else [])"

text \<open>\<^verbatim>\<open>str.lower\<close> on ASCII letters; other characters are left as they are.\<close>

definition lower_char :: "char \<Rightarrow> char" where
  "lower_char c =
     (if CHR ''A'' \<le> c \<and> c \<le> CHR ''Z'' then char_of (of_char c + (32 :: nat)) else c)"

definition lower :: "string \<Rightarrow> string" where
  "lower s = map lower_char s"

definition startswith :: "string \<Rightarrow> string \<Rightarrow> bool" where
  "startswith s pre \<longleftrightarrow> take (length pre) s = pre"

text \<open>
  \<^verbatim>\<open>os.path.join(root, file)\<close> for two components on POSIX: an absolute second
  component replaces the first, otherwise one separator is put between them unless the
  first is empty or ends with one.
\<close>

definition path_join :: "string \<Rightarrow> string \<Rightarrow> string" where
  "path_join a b =
     (if startswith b ''/'' then b
      else if a = [] \<or> last a = CHR ''/'' then a @ b
      else a @ ''/'' @ b)"

subsection \<open>\<^verbatim>\<open>is_text_file\<close> and \<^verbatim>\<open>collect_files\<close>\<close>


text \<open>
  \<^verbatim>\<open>mimetypes.guess_type\<close> is a table of the Python library keyed by the path; it is
  the parameter \<open>guess_type\<close>, giving the first component of the pair it returns.
  No argument of \<open>is_text_file\<close> carries the bytes of the file.
\<close>

definition is_text_file :: "(string \<Rightarrow> string option) \<Rightarrow> string \<Rightarrow> string set \<Rightarrow> bool" where
  "is_text_file guess_type filepath exts =
     (let ext = lower (suffix filepath)
      in if ext \<in> exts then True
         else case guess_type filepath of
                None \<Rightarrow> False
              | Some mime_type \<Rightarrow> startswith mime_type ''text/'')"

text \<open>
  \<^verbatim>\<open>os.walk\<close> yields, per directory, its path and the names of its files; that list is
  the parameter \<open>walk\<close>. \<^verbatim>\<open>sorted\<close> orders strings by code point.
\<close>

definition collect_files ::
  "(string \<Rightarrow> string option) \<Rightarrow> (string \<times> string list) list \<Rightarrow> string set \<Rightarrow> string list" where
  "collect_files guess_type walk exts =
     sort (concat (map (\<lambda>(root, files).
        filter (\<lambda>filepath. is_text_file guess_type filepath exts)
          (map (path_join root) files)) walk))"

subsection \<open>\<^verbatim>\<open>create_combined_file\<close>\<close>

text \<open>
  What happens when the script opens a file as UTF-8 text and reads it whole:
  \<^verbatim>\<open>open\<close> fails (missing file, no permission), or \<^verbatim>\<open>open\<close> succeeds and
  \<^verbatim>\<open>read\<close> returns the text, raises \<^verbatim>\<open>UnicodeDecodeError\<close>, or raises another
  exception. \<^verbatim>\<open>open\<close> decodes nothing; decoding happens in \<^verbatim>\<open>read\<close>.
\<close>

datatype read_result = OpenFails | ReadText string | UnicodeDecodeError | ReadFails

datatype notice = CouldNotRead string | ErrorProcessing string

definition header :: "string \<Rightarrow> string" where
  "header filepath = ''// Filepath: '' @ filepath @ [CHR 0x0A, CHR 0x0A, CHR 0x0A]"

definition fence_open :: string where
  "fence_open = ''```'' @ [CHR 0x0A]"

definition footer :: string where
  "footer = [CHR 0x0A] @ ''```'' @ [CHR 0x0A, CHR 0x0A, CHR 0x0A]"

text \<open>
  The text written to the output file and the lines printed, in order. In the \<^verbatim>\<open>try\<close>
  block the header and the opening fence are written before \<^verbatim>\<open>infile.read()\<close> is
  evaluated, so they are in the output when \<^verbatim>\<open>read\<close> raises.
\<close>

fun create_combined_file :: "(string \<Rightarrow> read_result) \<Rightarrow> string list \<Rightarrow> string \<times> notice list" where
  "create_combined_file fs [] = ([], [])"
| "create_combined_file fs (filepath # files) =
     (let (out, notes) = create_combined_file fs files
      in case fs filepath of
           OpenFails \<Rightarrow> (out, ErrorProcessing filepath # notes)
         | ReadText content \<Rightarrow>
             (header filepath @ fence_open @ content @ footer @ out, notes)
         | UnicodeDecodeError \<Rightarrow>
             (header filepath @ fence_open @ out, CouldNotRead filepath # notes)
         | ReadFails \<Rightarrow>
             (header filepath @ fence_open @ out, ErrorProcessing filepath # notes))"

section \<open>A concrete run\<close>

text \<open>
  An environment and an argument record for evaluating the definitions: the probe prints
  \<^verbatim>\<open>1500.000000\<close> and a newline, \<^verbatim>\<open>float\<close> reads that text as 1500 and rejects
  any other text, and every transform exits with status 0. The arguments are the
  defaults of the command line (10-minute chunks, speed 1.0, first chunk 1, no limit).
\<close>

definition example_env :: env where
  "example_env =
     \<lparr>mkdir_ok = (\<lambda>d. True),
      ffprobe = (\<lambda>f. Some \<lparr>stdout = ''1500.000000'' @ [CHR 0x0A], stderr = []\<rparr>),
      py_float = (\<lambda>s. if s = ''1500.000000'' then Some 1500 else None),
      ffmpeg = (\<lambda>c. Exit0)\<rparr>"

definition example_args :: args where
  "example_args =
     \<lparr>input_file = ''book.m4b'',
      output_dir = ''out'',
      chunk_duration = 10,
      speed_factor = 1,
      start_chunk = 1,
      max_chunks = None,
      audio_quality = ''192'',
      sample_rate = ''44100''\<rparr>"

text \<open>
  A probe whose output is not a number (\<^verbatim>\<open>N/A\<close>, which the probe prints for a
  stream without a duration), in the same environment.
\<close>

definition na_env :: env where
  "na_env = example_env\<lparr>ffprobe := (\<lambda>f. Some \<lparr>stdout = ''N/A'' @ [CHR 0x0A], stderr = []\<rparr>)\<rparr>"

text \<open>
  A probe that prints nothing on standard output and a diagnostic on standard error.
\<close>

definition silent_env :: env where
  "silent_env =
     example_env\<lparr>ffprobe := (\<lambda>f. Some \<lparr>stdout = [], stderr = ''No such file''\<rparr>)\<rparr>"


section \<open>Properties of the chunk planner\<close>

lemma below_ceiling:
  fixes td :: real and cs i :: int
  assumes "0 < cs" "i < \<lceil>td / of_int cs\<rceil>"
  shows "of_int (i * cs) < td"
proof -
  have "of_int i < td / of_int cs" using assms(2) by (simp add: less_ceiling_iff)
  then have "of_int i * of_int cs < td" using assms(1) by (simp add: pos_less_divide_eq)
  then show ?thesis by simp
qed

lemma ceiling_upper:
  fixes td :: real and cs :: int
  assumes "0 < cs"
  shows "td \<le> of_int (\<lceil>td / of_int cs\<rceil> * cs)"
proof -
  have pos: "0 < (of_int cs :: real)" using assms by simp
  have "td / of_int cs \<le> of_int \<lceil>td / of_int cs\<rceil>" by (rule le_of_int_ceiling)
  then have "td / of_int cs * of_int cs \<le> of_int \<lceil>td / of_int cs\<rceil> * of_int cs"
    using pos by (intro mult_right_mono) simp_all
  then show ?thesis using pos by simp
qed

lemma chunk_plan_length:
  "length (chunk_plan td cd sc mc) = nat (total_chunks td (cd * 60) sc mc - sc + 1)"
  by (simp add: chunk_plan_def Let_def)

lemma chunk_plan_nth:
  "k < length (chunk_plan td cd sc mc) \<Longrightarrow>
   chunk_plan td cd sc mc ! k = plan_chunk td (cd * 60) (sc - 1 + int k)"
  by (simp add: chunk_plan_def Let_def)

lemma set_chunk_plan:
  "set (chunk_plan td cd sc mc) =
   plan_chunk td (cd * 60) ` {sc - 1 .. total_chunks td (cd * 60) sc mc - 1}"
  by (simp add: chunk_plan_def Let_def)

lemma total_chunks_le: "total_chunks td cs sc mc \<le> \<lceil>td / of_int cs\<rceil>"
  by (simp add: total_chunks_def Let_def split: option.split)


lemma plan_duration_pos:
  assumes "0 < cs" "i < \<lceil>td / of_int cs\<rceil>"
  shows "0 < duration (plan_chunk td cs i) \<and> duration (plan_chunk td cs i) \<le> of_int cs"
  using below_ceiling [OF assms] assms(1) by (simp add: plan_chunk_def)

lemma plan_duration_full:
  assumes "0 < cs" "i + 1 < \<lceil>td / of_int cs\<rceil>"
  shows "duration (plan_chunk td cs i) = of_int cs"
proof -
  have "of_int ((i + 1) * cs) < td" using assms by (rule below_ceiling)
  then have "of_int cs < td - of_int (i * cs)" by (simp add: algebra_simps)
  then show ?thesis by (simp add: plan_chunk_def)
qed

lemma plan_duration_last:
  assumes "0 < cs" "i + 1 = \<lceil>td / of_int cs\<rceil>"
  shows "duration (plan_chunk td cs i) = td - of_int (i * cs)"
proof -
  have "td \<le> of_int ((i + 1) * cs)" using ceiling_upper [OF assms(1), of td] assms(2) by simp
  then have "td - of_int (i * cs) \<le> of_int cs" by (simp add: algebra_simps)
  then show ?thesis by (simp add: plan_chunk_def)
qed


lemma first_plan_length:
  "0 < td \<Longrightarrow> 0 < cd \<Longrightarrow> length (chunk_plan td cd 1 None) = nat \<lceil>td / of_int (cd * 60)\<rceil>"
  by (simp add: chunk_plan_length total_chunks_def)

lemma first_plan_nth:
  assumes "k < length (chunk_plan td cd 1 None)"
  shows "chunk_plan td cd 1 None ! k = plan_chunk td (cd * 60) (int k)"
  using chunk_plan_nth [OF assms] by simp

lemma covering_chunk:
  fixes td x :: real and cs :: int
  assumes cs: "0 < cs" and x: "0 \<le> x" "x < td"
  shows "\<exists>!k. k < nat \<lceil>td / of_int cs\<rceil> \<and>
            of_int (start_time (plan_chunk td cs (int k))) \<le> x \<and>
            x < of_int (start_time (plan_chunk td cs (int k))) + duration (plan_chunk td cs (int k))"
proof -
  have pos: "0 < (of_int cs :: real)" using cs by simp
  define q where "q = \<lfloor>x / of_int cs\<rfloor>"
  have q0: "0 \<le> q" using x(1) pos by (simp add: q_def)
  have lo: "of_int q * of_int cs \<le> x"
  proof -
    have "of_int q \<le> x / of_int cs" by (simp add: q_def)
    then show ?thesis using pos by (simp add: pos_le_divide_eq)
  qed
  have hi: "x < (of_int q + 1) * of_int cs"
  proof -
    have "x / of_int cs < of_int q + 1" by (simp add: q_def)
    then show ?thesis using pos by (simp add: pos_divide_less_eq)
  qed
  have "of_int q * of_int cs < td" using lo x(2) by linarith
  then have "of_int q < td / of_int cs" using pos by (simp add: pos_less_divide_eq)
  then have qn: "q < \<lceil>td / of_int cs\<rceil>" by (simp add: less_ceiling_iff)
  have in_q: "nat q < nat \<lceil>td / of_int cs\<rceil> \<and>
      of_int (start_time (plan_chunk td cs (int (nat q)))) \<le> x \<and>
      x < of_int (start_time (plan_chunk td cs (int (nat q)))) + duration (plan_chunk td cs (int (nat q)))"
  proof (intro conjI)
    show "nat q < nat \<lceil>td / of_int cs\<rceil>" using q0 qn by linarith
    show "of_int (start_time (plan_chunk td cs (int (nat q)))) \<le> x"
      using q0 lo by (simp add: plan_chunk_def)
    have "x < of_int q * of_int cs + min (of_int cs) (td - of_int q * of_int cs)"
      using hi x(2) by (simp add: min_def algebra_simps)
    then show "x < of_int (start_time (plan_chunk td cs (int (nat q))))
                  + duration (plan_chunk td cs (int (nat q)))"
      using q0 by (simp add: plan_chunk_def)
  qed
  have only_q: "k = nat q"
    if k: "k < nat \<lceil>td / of_int cs\<rceil> \<and>
      of_int (start_time (plan_chunk td cs (int k))) \<le> x \<and>
      x < of_int (start_time (plan_chunk td cs (int k))) + duration (plan_chunk td cs (int k))" for k
  proof -
    have a: "real k * of_int cs \<le> x" using k by (simp add: plan_chunk_def)
    have "x < real k * of_int cs + min (of_int cs) (td - real k * of_int cs)"
      using k by (simp add: plan_chunk_def)
    then have b: "x < (real k + 1) * of_int cs" by (simp add: algebra_simps)
    have "of_int (int k) \<le> x / of_int cs" using a pos by (simp add: pos_le_divide_eq)
    moreover have "x / of_int cs < of_int (int k) + 1" using b pos by (simp add: pos_divide_less_eq)
    ultimately have "\<lfloor>x / of_int cs\<rfloor> = int k" by (rule floor_unique)
    then show ?thesis by (simp add: q_def)
  qed
  show ?thesis using in_q only_q by blast
qed

lemma plan_chunk_end_le:
  "of_int (start_time (plan_chunk td cs i)) + duration (plan_chunk td cs i) \<le> td"
  by (simp add: plan_chunk_def min_def)

lemma chunk_plan_end_le:
  assumes "c \<in> set (chunk_plan td cd sc mc)"
  shows "of_int (start_time c) + duration c \<le> td"
  using assms plan_chunk_end_le by (auto simp: set_chunk_plan)

text \<open>
  Claim C1. For every \<open>total_duration > 0\<close> and \<open>chunk_duration > 0\<close>, with
  \<open>start_chunk = 1\<close> and no \<open>max_chunks\<close>, the plan has exactly
  \<open>ceil (total_duration / (chunk_duration * 60))\<close> records; record number \<open>index\<close> has
  \<open>start_time = (index - 1) * chunk_seconds\<close> and
  \<open>duration = min chunk_seconds (total_duration - start_time)\<close>; each chunk ends where
  the next one starts; every instant of \<open>[0, total_duration)\<close> lies in exactly one
  chunk; every chunk ends at or before \<open>total_duration\<close>; and 1500 seconds in
  10-minute chunks are the three chunks (0, 600), (600, 600), (1200, 300).
\<close>

theorem chunk_plan_covers_total:
  fixes total_duration :: real and chunk_duration :: int
  assumes "0 < total_duration" and "0 < chunk_duration"
  shows "(let chunk_seconds = chunk_duration * 60;
              plan = chunk_plan total_duration chunk_duration 1 None
          in length plan = nat \<lceil>total_duration / of_int chunk_seconds\<rceil>
           \<and> (\<forall>k<length plan. plan ! k =
                 \<lparr>index = int k + 1,
                  start_time = (int k + 1 - 1) * chunk_seconds,
                  duration = min (of_int chunk_seconds)
                               (total_duration - of_int ((int k + 1 - 1) * chunk_seconds))\<rparr>)
           \<and> (\<forall>k. Suc k < length plan \<longrightarrow>
                 of_int (start_time (plan ! k)) + duration (plan ! k)
                   = of_int (start_time (plan ! Suc k)))
           \<and> (\<forall>x. 0 \<le> x \<and> x < total_duration \<longrightarrow>
                 (\<exists>!k. k < length plan
                       \<and> of_int (start_time (plan ! k)) \<le> x
                       \<and> x < of_int (start_time (plan ! k)) + duration (plan ! k)))
           \<and> (\<forall>c\<in>set plan. of_int (start_time c) + duration c \<le> total_duration))
       \<and> chunk_plan 1500 10 1 None =
            [\<lparr>index = 1, start_time = 0, duration = 600\<rparr>,
             \<lparr>index = 2, start_time = 600, duration = 600\<rparr>,
             \<lparr>index = 3, start_time = 1200, duration = 300\<rparr>]"
proof -
  define cs where "cs = chunk_duration * 60"
  define plan where "plan = chunk_plan total_duration chunk_duration 1 None"
  define n where "n = \<lceil>total_duration / of_int cs\<rceil>"
  have cs: "0 < cs" using assms(2) by (simp add: cs_def)
  have len: "length plan = nat n"
    using assms by (simp add: plan_def n_def cs_def first_plan_length)
  have nth: "plan ! k = plan_chunk total_duration cs (int k)" if "k < length plan" for k
    using that by (simp add: plan_def cs_def first_plan_nth)
  have p2: "\<forall>k<length plan. plan ! k =
                 \<lparr>index = int k + 1,
                  start_time = (int k + 1 - 1) * cs,
                  duration = min (of_int cs) (total_duration - of_int ((int k + 1 - 1) * cs))\<rparr>"
    using nth by (simp add: plan_chunk_def)
  have p3: "\<forall>k. Suc k < length plan \<longrightarrow>
                 of_int (start_time (plan ! k)) + duration (plan ! k)
                   = of_int (start_time (plan ! Suc k))"
  proof (intro allI impI)
    fix k assume k: "Suc k < length plan"
    then have "int k + 1 < n" using len by linarith
    then have "duration (plan_chunk total_duration cs (int k)) = of_int cs"
      unfolding n_def by (rule plan_duration_full [OF cs])
    then show "of_int (start_time (plan ! k)) + duration (plan ! k)
                   = of_int (start_time (plan ! Suc k))"
      using k nth [of k] nth [of "Suc k"] by (simp add: plan_chunk_def algebra_simps)
  qed
  have p4: "\<forall>x. 0 \<le> x \<and> x < total_duration \<longrightarrow>
                 (\<exists>!k. k < length plan
                       \<and> of_int (start_time (plan ! k)) \<le> x
                       \<and> x < of_int (start_time (plan ! k)) + duration (plan ! k))"
  proof (intro allI impI)
    fix x :: real assume x: "0 \<le> x \<and> x < total_duration"
    have "\<exists>!k. k < nat n \<and>
            of_int (start_time (plan_chunk total_duration cs (int k))) \<le> x \<and>
            x < of_int (start_time (plan_chunk total_duration cs (int k)))
                  + duration (plan_chunk total_duration cs (int k))"
      unfolding n_def using cs x by (intro covering_chunk) simp_all
    then show "\<exists>!k. k < length plan
                       \<and> of_int (start_time (plan ! k)) \<le> x
                       \<and> x < of_int (start_time (plan ! k)) + duration (plan ! k)"
      using nth len by (metis (no_types, lifting))
  qed
  have p5: "\<forall>c\<in>set plan. of_int (start_time c) + duration c \<le> total_duration"
    using chunk_plan_end_le unfolding plan_def by blast
  have ex: "chunk_plan 1500 10 1 None =
            [\<lparr>index = 1, start_time = 0, duration = 600\<rparr>,
             \<lparr>index = 2, start_time = 600, duration = 600\<rparr>,
             \<lparr>index = 3, start_time = 1200, duration = 300\<rparr>]"
    by (simp add: chunk_plan_def total_chunks_def plan_chunk_def upto_rec1)
  show ?thesis
    using len p2 p3 p4 p5 ex unfolding Let_def cs_def [symmetric] plan_def [symmetric] n_def [symmetric]
    by blast
qed


theorem chunk_plan_covers_total_witness:
  "(0 :: real) < 1500 \<and> (0 :: int) < 10
   \<and> length (chunk_plan 1500 10 1 None) = nat \<lceil>(1500 :: real) / of_int (10 * 60)\<rceil>
   \<and> of_int (start_time (chunk_plan 1500 10 1 None ! 1)) + duration (chunk_plan 1500 10 1 None ! 1)
       = (of_int (start_time (chunk_plan 1500 10 1 None ! 2)) :: real)
   \<and> of_int (start_time (last (chunk_plan 1500 10 1 None))) + duration (last (chunk_plan 1500 10 1 None))
       = (1500 :: real)"
  using chunk_plan_covers_total [of 1500 10] by (simp add: Let_def)

section \<open>Properties of the speed filter\<close>

lemma py_fmod_small: "0 \<le> x \<Longrightarrow> x < 2 \<Longrightarrow> py_fmod x 2 = x"
proof -
  assume a: "0 \<le> x" "x < 2"
  have "\<lfloor>x / 2\<rfloor> = 0" using a by (intro floor_unique) simp_all
  then show ?thesis by (simp add: py_fmod_def)
qed

lemma speed_valid_mid:
  assumes "1 / 2 < s" "s \<le> 2"
  shows "\<not> speed_invalid s"
proof -
  have pos: "0 < s" using assms by simp
  have "1 / s < 2" using assms pos by (simp add: divide_less_eq)
  moreover have "0 < 1 / s" using pos by simp
  ultimately have "py_fmod (1 / s) 2 = 1 / s" by (intro py_fmod_small) simp_all
  then show ?thesis using pos by (simp add: speed_invalid_def)
qed

text \<open>
  Claim C2. For every \<open>speed_factor\<close> that passes validation and is not 1.0, the chain
  is a sequence of multipliers each in \<open>[0.5, 2.0]\<close> whose product is \<open>speed_factor\<close>.
  The code does not do this. For 3.0 the chain is \<open>[2.0, 1.0]\<close>, with product 2; for
  6.0 it is \<open>[2.0, 2.0, 2.0, 0.0]\<close>, whose last stage is outside the range. Both values
  pass the validation.
\<close>

theorem tempo_chain_misses_product:
  "\<not> speed_invalid 3 \<and> speed_filter 3 = Some [2, 1] \<and> prod_list (tempo_chain 3) = 2
   \<and> \<not> speed_invalid 6 \<and> speed_filter 6 = Some [2, 2, 2, 0]"
  by (simp add: speed_invalid_def speed_filter_def tempo_chain_def py_fmod_def numeral_3_eq_3)

text \<open>
  Claim C3. For \<open>speed_factor = 4.0\<close> the chain is exactly \<open>[2.0, 2.0]\<close>, with product
  4.0. The code appends the stage \<open>4.0 % 2 = 0.0\<close>: the chain is \<open>[2.0, 2.0, 0.0]\<close>, with
  product 0, and 4.0 passes the validation.
\<close>

theorem tempo_chain_4_has_zero_stage:
  "\<not> speed_invalid 4 \<and> speed_filter 4 = Some [2, 2, 0] \<and> prod_list (tempo_chain 4) = 0"
  by (simp add: speed_invalid_def speed_filter_def tempo_chain_def py_fmod_def numeral_2_eq_2)

text \<open>
  Claim C4. For every \<open>speed_factor\<close> with \<open>0.5 \<le> speed_factor \<le> 2.0\<close> other than 1.0
  the run is not aborted by validation and the chain is \<open>[speed_factor]\<close>. The code
  does not do this at 0.5. The branch \<^verbatim>\<open>elif speed_factor < 0.5\<close> leaves 0.5 to the
  single-stage \<^verbatim>\<open>else\<close>, which would build \<open>[0.5]\<close>, and the other end of the range,
  2.0, passes the check and gets \<open>[2.0]\<close>. But \<open>1 / 0.5 = 2.0\<close> and \<open>2.0 % 2 = 0.0\<close>, so
  the check that guards the division in the branch below 0.5 rejects 0.5 as well: the
  run prints the speed-factor message at the first chunk and returns, with no transform
  invoked.
\<close>

theorem half_speed_rejected:
  "speed_invalid (1 / 2)
   \<and> tempo_chain (1 / 2) = [1 / 2]
   \<and> \<not> speed_invalid 2 \<and> speed_filter 2 = Some [2]
   \<and> process_audiobook example_env (example_args\<lparr>speed_factor := 1 / 2\<rparr>) =
       ([Print (TotalDurationSeconds ''1500.000000''), Print (TotalDurationMinutes 25),
         Print (ProcessingChunks 1 3), Print SpeedTooSmall], Returned)"
  by (simp add: speed_invalid_def py_fmod_def tempo_chain_def speed_filter_def
      process_audiobook_def get_duration_def
      example_env_def example_args_def rstrip_def py_isspace_def total_chunks_def
      chunk_plan_def upto_rec1)

section \<open>Properties of a run\<close>

lemma invocations_simps [simp]:
  "invocations [] = []"
  "invocations (Print m # evs) = invocations evs"
  "invocations (Invoke c # evs) = c # invocations evs"
  "invocations (xs @ ys) = invocations xs @ invocations ys"
  "invocations (map Print ms) = []"
  by (induction ms) (simp_all add: invocations_def)

lemma printed_simps [simp]:
  "printed [] = []"
  "printed (Print m # evs) = m # printed evs"
  "printed (Invoke c # evs) = printed evs"
  "printed (xs @ ys) = printed xs @ printed ys"
  "printed (map Print ms) = ms"
  by (induction ms) (simp_all add: printed_def)

lemma process_chunks_invalid:
  assumes "speed_invalid (speed_factor a)"
  shows "process_chunks e a n cs = (if cs = [] then ([], Returned) else ([Print SpeedTooSmall], Returned))"
  using assms by (cases cs) simp_all

lemma process_chunks_invocations:
  "set (invocations (fst (process_chunks e a n cs))) \<subseteq> build_cmd a ` set cs"
proof (induction cs)
  case Nil
  show ?case by simp
next
  case (Cons c cs)
  show ?case
  proof (cases "speed_invalid (speed_factor a)")
    case True
    then show ?thesis by simp
  next
    case False
    then show ?thesis using Cons.IH
      by (cases "ffmpeg e (build_cmd a c)") (auto simp: Let_def split: prod.splits)
  qed
qed

lemma process_audiobook_run:
  assumes "mkdir_ok e (output_dir a)"
    and "get_duration e (input_file a) = (msgs, Inr td)"
    and "td \<noteq> 0" and "chunk_duration a \<noteq> 0"
  shows "process_audiobook e a =
    (map Print msgs
       @ [Print (TotalDurationMinutes (td / 60)),
          Print (ProcessingChunks (start_chunk a)
            (total_chunks td (chunk_duration a * 60) (start_chunk a) (max_chunks a)))]
       @ fst (process_chunks e a
            (total_chunks td (chunk_duration a * 60) (start_chunk a) (max_chunks a))
            (chunk_plan td (chunk_duration a) (start_chunk a) (max_chunks a))),
     snd (process_chunks e a
            (total_chunks td (chunk_duration a * 60) (start_chunk a) (max_chunks a))
            (chunk_plan td (chunk_duration a) (start_chunk a) (max_chunks a))))"
  using assms by (simp add: process_audiobook_def Let_def split: prod.splits)

lemma process_audiobook_invocations:
  assumes "cmd \<in> set (invocations (fst (process_audiobook e a)))"
  shows "\<exists>msgs td. get_duration e (input_file a) = (msgs, Inr td) \<and> td \<noteq> 0
           \<and> chunk_duration a \<noteq> 0 \<and> \<not> speed_invalid (speed_factor a)
           \<and> cmd \<in> build_cmd a `
                 set (chunk_plan td (chunk_duration a) (start_chunk a) (max_chunks a))"
proof (cases "mkdir_ok e (output_dir a)")
  case False
  then show ?thesis using assms by (simp add: process_audiobook_def)
next
  case True
  obtain msgs res where g: "get_duration e (input_file a) = (msgs, res)"
    by (cases "get_duration e (input_file a)")
  show ?thesis
  proof (cases res)
    case (Inl err)
    then show ?thesis using assms True g by (simp add: process_audiobook_def)
  next
    case (Inr td)
    show ?thesis
    proof (cases "td = 0 \<or> chunk_duration a = 0")
      case True
      then show ?thesis using assms \<open>mkdir_ok e (output_dir a)\<close> g Inr
        by (auto simp: process_audiobook_def split: if_splits)
    next
      case False
      let ?n = "total_chunks td (chunk_duration a * 60) (start_chunk a) (max_chunks a)"
      let ?plan = "chunk_plan td (chunk_duration a) (start_chunk a) (max_chunks a)"
      have run: "invocations (fst (process_audiobook e a))
                   = invocations (fst (process_chunks e a ?n ?plan))"
        using process_audiobook_run [of e a msgs td] \<open>mkdir_ok e (output_dir a)\<close> g Inr False
        by simp
      have valid: "\<not> speed_invalid (speed_factor a)"
      proof
        assume "speed_invalid (speed_factor a)"
        then have "invocations (fst (process_chunks e a ?n ?plan)) = []"
          by (simp add: process_chunks_invalid)
        then show False using assms run by simp
      qed
      have "cmd \<in> build_cmd a ` set ?plan"
        using assms run process_chunks_invocations [of e a ?n ?plan] by auto
      then show ?thesis using g Inr False valid by simp
    qed
  qed
qed

text \<open>
  Claim C9. For every \<open>total_duration > 0\<close> and \<open>chunk_duration > 0\<close>, whatever
  \<open>start_chunk\<close> and \<open>max_chunks\<close> are, every planned chunk has
  \<open>0 < duration \<le> chunk_seconds\<close>, and so has the \<^verbatim>\<open>-t\<close> argument of every transform
  invocation the run makes: no zero-length or negative-length invocation is built.
\<close>

theorem planned_duration_positive:
  assumes "0 < total_duration" and "0 < chunk_duration a"
    and "get_duration e (input_file a) = (msgs, Inr total_duration)"
  shows "(\<forall>c \<in> set (chunk_plan total_duration (chunk_duration a) (start_chunk a) (max_chunks a)).
            0 < duration c \<and> duration c \<le> of_int (chunk_duration a * 60))
       \<and> (\<forall>cmd \<in> set (invocations (fst (process_audiobook e a))).
            0 < t cmd \<and> t cmd \<le> of_int (chunk_duration a * 60))"
proof -
  let ?cs = "chunk_duration a * 60"
  let ?plan = "chunk_plan total_duration (chunk_duration a) (start_chunk a) (max_chunks a)"
  have cs: "0 < ?cs" using assms(2) by simp
  have plan: "0 < duration c \<and> duration c \<le> of_int ?cs" if c_in: "c \<in> set ?plan" for c
  proof -
    obtain i where i: "i < total_chunks total_duration ?cs (start_chunk a) (max_chunks a)"
      and c: "c = plan_chunk total_duration ?cs i"
      using c_in by (auto simp: set_chunk_plan)
    have "i < \<lceil>total_duration / of_int ?cs\<rceil>"
      using i total_chunks_le [of total_duration ?cs "start_chunk a" "max_chunks a"] by linarith
    then show ?thesis using plan_duration_pos [OF cs] c by blast
  qed
  have cmds: "0 < t cmd \<and> t cmd \<le> of_int ?cs"
    if cmd_in: "cmd \<in> set (invocations (fst (process_audiobook e a)))" for cmd
  proof -
    obtain c where "c \<in> set ?plan" and "cmd = build_cmd a c"
      using process_audiobook_invocations [OF cmd_in] assms(3) by auto
    then show ?thesis using plan [of c] by (simp add: build_cmd_def)
  qed
  show ?thesis using plan cmds by blast
qed

theorem planned_duration_positive_witness:
  "(0 :: real) < 1500 \<and> 0 < chunk_duration example_args
   \<and> get_duration example_env (input_file example_args)
       = ([TotalDurationSeconds ''1500.000000''], Inr 1500)
   \<and> map duration (chunk_plan 1500 10 1 None) = [600, 600, 300]
   \<and> map t (invocations (fst (process_audiobook example_env example_args))) = [600, 600, 300]
   \<and> list_all (\<lambda>c. 0 < duration c \<and> duration c \<le> 600) (chunk_plan 1500 10 1 None)
   \<and> list_all (\<lambda>cmd. 0 < t cmd \<and> t cmd \<le> 600)
        (invocations (fst (process_audiobook example_env example_args)))"
proof -
  have g: "get_duration example_env (input_file example_args)
             = ([TotalDurationSeconds ''1500.000000''], Inr 1500)"
    by (simp add: get_duration_def example_env_def rstrip_def py_isspace_def)
  have p: "map duration (chunk_plan 1500 10 1 None) = [600, 600, 300]"
    by (simp add: chunk_plan_def total_chunks_def plan_chunk_def upto_rec1)
  have r: "map t (invocations (fst (process_audiobook example_env example_args))) = [600, 600, 300]"
    by (simp add: process_audiobook_def get_duration_def rstrip_def py_isspace_def
        example_args_def chunk_plan_def total_chunks_def plan_chunk_def upto_rec1
        speed_invalid_def py_fmod_def build_cmd_def example_env_def Let_def)
  have "0 < chunk_duration example_args" by (simp add: example_args_def)
  with planned_duration_positive [of 1500 example_args example_env, OF _ _ g] g p r
  show ?thesis by (simp add: example_args_def list_all_iff)
qed

lemma chunk_plan_empty:
  "total_chunks td (cd * 60) sc mc < sc \<Longrightarrow> chunk_plan td cd sc mc = []"
  by (simp add: chunk_plan_def Let_def)

text \<open>
  Claim C5. When the directory can be made, the probe gives a non-zero duration, the
  chunk length is not zero and \<open>start_chunk\<close> exceeds \<open>total_chunks\<close> (after the
  \<open>max_chunks\<close> clamp), the plan is empty and the run prints its two summary lines and
  returns normally: no transform is invoked and no per-chunk line is printed, the error
  line of a chunk included.
\<close>

theorem start_beyond_total_is_empty_run:
  assumes "mkdir_ok e (output_dir a)"
    and "get_duration e (input_file a) = (msgs, Inr total_duration)"
    and "total_duration \<noteq> 0" and "chunk_duration a \<noteq> 0"
    and "total_chunks total_duration (chunk_duration a * 60) (start_chunk a) (max_chunks a)
           < start_chunk a"
  shows "chunk_plan total_duration (chunk_duration a) (start_chunk a) (max_chunks a) = []
       \<and> process_audiobook e a =
           (map Print msgs
              @ [Print (TotalDurationMinutes (total_duration / 60)),
                 Print (ProcessingChunks (start_chunk a)
                   (total_chunks total_duration (chunk_duration a * 60)
                      (start_chunk a) (max_chunks a)))],
            Returned)
       \<and> invocations (fst (process_audiobook e a)) = []
       \<and> printed (fst (process_audiobook e a)) =
           msgs @ [TotalDurationMinutes (total_duration / 60),
                   ProcessingChunks (start_chunk a)
                     (total_chunks total_duration (chunk_duration a * 60)
                        (start_chunk a) (max_chunks a))]"
proof -
  have empty: "chunk_plan total_duration (chunk_duration a) (start_chunk a) (max_chunks a) = []"
    using assms(5) by (rule chunk_plan_empty)
  have run: "process_audiobook e a =
           (map Print msgs
              @ [Print (TotalDurationMinutes (total_duration / 60)),
                 Print (ProcessingChunks (start_chunk a)
                   (total_chunks total_duration (chunk_duration a * 60)
                      (start_chunk a) (max_chunks a)))],
            Returned)"
    using process_audiobook_run [OF assms(1-4)] empty by simp
  show ?thesis using empty run by simp
qed

theorem start_beyond_total_is_empty_run_witness:
  "mkdir_ok example_env (output_dir (example_args\<lparr>start_chunk := 5\<rparr>))
   \<and> get_duration example_env (input_file (example_args\<lparr>start_chunk := 5\<rparr>))
       = ([TotalDurationSeconds ''1500.000000''], Inr 1500)
   \<and> total_chunks 1500 (chunk_duration (example_args\<lparr>start_chunk := 5\<rparr>) * 60)
        (start_chunk (example_args\<lparr>start_chunk := 5\<rparr>))
        (max_chunks (example_args\<lparr>start_chunk := 5\<rparr>)) = 3
   \<and> process_audiobook example_env (example_args\<lparr>start_chunk := 5\<rparr>) =
       ([Print (TotalDurationSeconds ''1500.000000''), Print (TotalDurationMinutes 25),
         Print (ProcessingChunks 5 3)], Returned)
   \<and> invocations (fst (process_audiobook example_env (example_args\<lparr>start_chunk := 5\<rparr>))) = []"
proof -
  let ?a = "example_args\<lparr>start_chunk := 5\<rparr>"
  have m: "mkdir_ok example_env (output_dir ?a)" by (simp add: example_env_def)
  have g: "get_duration example_env (input_file ?a)
             = ([TotalDurationSeconds ''1500.000000''], Inr 1500)"
    by (simp add: get_duration_def example_env_def rstrip_def py_isspace_def)
  have n: "total_chunks 1500 (chunk_duration ?a * 60) (start_chunk ?a) (max_chunks ?a) = 3"
    by (simp add: total_chunks_def example_args_def)
  have c: "chunk_duration ?a \<noteq> 0" by (simp add: example_args_def)
  have s: "start_chunk ?a = 5" by simp
  from start_beyond_total_is_empty_run [OF m g _ c] n s m g
  show ?thesis by simp
qed

text \<open>
  Claim C10. When the probe's standard output, stripped of trailing whitespace, is not
  empty and \<^verbatim>\<open>float\<close> rejects it, \<open>get_duration\<close> prints the text and raises
  \<^verbatim>\<open>ValueError\<close> instead of returning 0; \<open>process_audiobook\<close> does not catch it, so the
  run ends with an exception, without the "cannot determine" line and without any
  transform invocation.
\<close>

theorem unparsable_duration_raises:
  assumes "ffprobe e (input_file a) = Some r"
    and "rstrip (stdout r) \<noteq> []"
    and "py_float e (rstrip (stdout r)) = None"
  shows "get_duration e (input_file a)
           = ([TotalDurationSeconds (rstrip (stdout r))], Inl ValueError)
       \<and> process_audiobook e a =
           (if mkdir_ok e (output_dir a)
            then ([Print (TotalDurationSeconds (rstrip (stdout r)))], Raised ValueError)
            else ([], Raised OSError))
       \<and> snd (process_audiobook e a) \<noteq> Returned
       \<and> CannotDetermine (input_file a) \<notin> set (printed (fst (process_audiobook e a)))
       \<and> invocations (fst (process_audiobook e a)) = []"
proof -
  have g: "get_duration e (input_file a)
             = ([TotalDurationSeconds (rstrip (stdout r))], Inl ValueError)"
    using assms by (simp add: get_duration_def)
  have p: "process_audiobook e a =
           (if mkdir_ok e (output_dir a)
            then ([Print (TotalDurationSeconds (rstrip (stdout r)))], Raised ValueError)
            else ([], Raised OSError))"
    by (simp add: process_audiobook_def g)
  show ?thesis using g p by simp
qed

theorem unparsable_duration_raises_witness:
  "ffprobe na_env (input_file example_args) = Some \<lparr>stdout = ''N/A'' @ [CHR 0x0A], stderr = []\<rparr>
   \<and> rstrip (''N/A'' @ [CHR 0x0A]) = ''N/A''
   \<and> py_float na_env ''N/A'' = None
   \<and> get_duration na_env (input_file example_args)
        = ([TotalDurationSeconds ''N/A''], Inl ValueError)
   \<and> process_audiobook na_env example_args
        = ([Print (TotalDurationSeconds ''N/A'')], Raised ValueError)"
proof -
  have f: "ffprobe na_env (input_file example_args)
             = Some \<lparr>stdout = ''N/A'' @ [CHR 0x0A], stderr = []\<rparr>"
    by (simp add: na_env_def)
  have s: "rstrip (''N/A'' @ [CHR 0x0A]) = ''N/A''" by (simp add: rstrip_def py_isspace_def)
  have p: "py_float na_env ''N/A'' = None" by (simp add: na_env_def example_env_def)
  have m: "mkdir_ok na_env (output_dir example_args)" by (simp add: na_env_def example_env_def)
  from unparsable_duration_raises [OF f] s p m f
  show ?thesis by simp
qed

text \<open>
  Claim C6, as stated, has every invalid speed factor cause a logged message. The check
  is inside the loop: with \<open>speed_factor = -1\<close> and \<open>start_chunk = 5\<close> on a plan of three
  chunks the loop body never runs, nothing about the speed factor is printed and the run
  returns after its two summary lines.
\<close>

theorem invalid_speed_empty_plan_logs_nothing:
  "speed_invalid (- 1)
   \<and> process_audiobook example_env (example_args\<lparr>speed_factor := - 1, start_chunk := 5\<rparr>) =
       ([Print (TotalDurationSeconds ''1500.000000''), Print (TotalDurationMinutes 25),
         Print (ProcessingChunks 5 3)], Returned)"
  by (simp add: speed_invalid_def process_audiobook_def get_duration_def
      example_env_def example_args_def rstrip_def py_isspace_def total_chunks_def
      chunk_plan_def)

text \<open>
  Claim C6, amended. A probe that returns zero makes the run print the "cannot
  determine" line and return at once. In that case, and whenever the speed factor is
  invalid, no transform is invoked, whatever the environment. An invalid speed factor
  makes the run print the speed-factor line and return when the loop reaches its first
  chunk, that is, when \<open>start_chunk \<le> total_chunks\<close>.
\<close>

theorem precondition_errors_abort:
  "(mkdir_ok e (output_dir a) \<and> get_duration e (input_file a) = (msgs, Inr 0) \<longrightarrow>
      process_audiobook e a
        = (map Print msgs @ [Print (CannotDetermine (input_file a))], Returned))
   \<and> (snd (get_duration e (input_file a)) = Inr 0 \<or> speed_invalid (speed_factor a) \<longrightarrow>
      invocations (fst (process_audiobook e a)) = [])
   \<and> (speed_invalid (speed_factor a) \<and> mkdir_ok e (output_dir a)
        \<and> get_duration e (input_file a) = (msgs, Inr total_duration)
        \<and> total_duration \<noteq> 0 \<and> chunk_duration a \<noteq> 0
        \<and> start_chunk a \<le> total_chunks total_duration (chunk_duration a * 60)
                              (start_chunk a) (max_chunks a) \<longrightarrow>
      process_audiobook e a
        = (map Print msgs
             @ [Print (TotalDurationMinutes (total_duration / 60)),
                Print (ProcessingChunks (start_chunk a)
                  (total_chunks total_duration (chunk_duration a * 60)
                     (start_chunk a) (max_chunks a))),
                Print SpeedTooSmall],
           Returned))"
proof (intro conjI impI)
  assume "mkdir_ok e (output_dir a) \<and> get_duration e (input_file a) = (msgs, Inr 0)"
  then show "process_audiobook e a
        = (map Print msgs @ [Print (CannotDetermine (input_file a))], Returned)"
    by (simp add: process_audiobook_def)
next
  assume h: "snd (get_duration e (input_file a)) = Inr 0 \<or> speed_invalid (speed_factor a)"
  show "invocations (fst (process_audiobook e a)) = []"
  proof (rule ccontr)
    assume "invocations (fst (process_audiobook e a)) \<noteq> []"
    then obtain cmd where "cmd \<in> set (invocations (fst (process_audiobook e a)))"
      by (cases "invocations (fst (process_audiobook e a))") auto
    from process_audiobook_invocations [OF this] h show False by auto
  qed
next
  let ?n = "total_chunks total_duration (chunk_duration a * 60) (start_chunk a) (max_chunks a)"
  let ?plan = "chunk_plan total_duration (chunk_duration a) (start_chunk a) (max_chunks a)"
  assume h: "speed_invalid (speed_factor a) \<and> mkdir_ok e (output_dir a)
        \<and> get_duration e (input_file a) = (msgs, Inr total_duration)
        \<and> total_duration \<noteq> 0 \<and> chunk_duration a \<noteq> 0
        \<and> start_chunk a \<le> ?n"
  then have "length ?plan \<noteq> 0" by (simp add: chunk_plan_length)
  then have "?plan \<noteq> []" by simp
  then have "process_chunks e a ?n ?plan = ([Print SpeedTooSmall], Returned)"
    using h by (simp add: process_chunks_invalid)
  then show "process_audiobook e a
        = (map Print msgs
             @ [Print (TotalDurationMinutes (total_duration / 60)),
                Print (ProcessingChunks (start_chunk a) ?n),
                Print SpeedTooSmall],
           Returned)"
    using h process_audiobook_run [of e a msgs total_duration] by simp
qed

theorem precondition_errors_abort_witness:
  "process_audiobook silent_env example_args
     = ([Print (ProbeError ''No such file''), Print (CannotDetermine ''book.m4b'')], Returned)
   \<and> invocations (fst (process_audiobook silent_env example_args)) = []
   \<and> speed_invalid (speed_factor (example_args\<lparr>speed_factor := - 1\<rparr>))
   \<and> invocations (fst (process_audiobook example_env (example_args\<lparr>speed_factor := - 1\<rparr>))) = []
   \<and> process_audiobook example_env (example_args\<lparr>speed_factor := - 1\<rparr>)
       = ([Print (TotalDurationSeconds ''1500.000000''), Print (TotalDurationMinutes 25),
           Print (ProcessingChunks 1 3), Print SpeedTooSmall], Returned)"
proof -
  let ?a = "example_args\<lparr>speed_factor := - 1\<rparr>"
  have g0: "get_duration silent_env (input_file example_args)
              = ([ProbeError ''No such file''], Inr 0)"
    by (simp add: get_duration_def silent_env_def example_env_def rstrip_def)
  have m0: "mkdir_ok silent_env (output_dir example_args)"
    by (simp add: silent_env_def example_env_def)
  have g: "get_duration example_env (input_file ?a)
             = ([TotalDurationSeconds ''1500.000000''], Inr 1500)"
    by (simp add: get_duration_def example_env_def rstrip_def py_isspace_def)
  have m: "mkdir_ok example_env (output_dir ?a)" by (simp add: example_env_def)
  have v: "speed_invalid (speed_factor ?a)" by (simp add: speed_invalid_def)
  have n: "total_chunks 1500 (chunk_duration ?a * 60) (start_chunk ?a) (max_chunks ?a) = 3"
    by (simp add: total_chunks_def example_args_def)
  have c: "chunk_duration ?a \<noteq> 0" "start_chunk ?a = 1" "input_file example_args = ''book.m4b''"
    by (simp_all add: example_args_def)
  from precondition_errors_abort [of silent_env example_args "[ProbeError ''No such file'']" 0]
       precondition_errors_abort [of example_env ?a "[TotalDurationSeconds ''1500.000000'']" 1500]
       g0 m0 g m v n c
  show ?thesis by simp
qed

section \<open>Properties of the source concatenator\<close>

text \<open>
  Claim C7. A file that fails to decode contributes nothing to the output, so the output
  holds one complete block per file read and no partial block. The code does not do
  this: the header and the opening fence are written before the file is read, so for the
  list \<open>[a.py, bad.bin]\<close>, where \<open>bad.bin\<close> does not decode, the output ends with the
  header and the opening fence of \<open>bad.bin\<close>, with no content and no closing fence, and
  the warning says the file was skipped.
\<close>

theorem undecodable_file_leaves_partial_block:
  "create_combined_file
     (\<lambda>p. if p = ''bad.bin'' then UnicodeDecodeError else ReadText ''x = 1'')
     [''a.py'', ''bad.bin'']
   = (header ''a.py'' @ fence_open @ ''x = 1'' @ footer @ header ''bad.bin'' @ fence_open,
      [CouldNotRead ''bad.bin''])
   \<and> header ''bad.bin'' @ fence_open
     = ''// Filepath: bad.bin'' @ [CHR 0x0A, CHR 0x0A, CHR 0x0A] @ ''```'' @ [CHR 0x0A]"
  by (simp add: header_def fence_open_def)















text \<open>
  Property X1. When no file of the list fails in \<^verbatim>\<open>read\<close>, the output is the
  concatenation, in list order, of one whole block (header, opening fence, content,
  footer) per file that was read; a file that cannot be opened adds nothing to the
  output and one error line to the printed lines.
\<close>

theorem readable_files_give_whole_blocks:
  assumes "\<forall>p \<in> set files. fs p \<noteq> UnicodeDecodeError \<and> fs p \<noteq> ReadFails"
  shows "create_combined_file fs files =
           (concat (map (\<lambda>p. case fs p of
                                 ReadText content \<Rightarrow> header p @ fence_open @ content @ footer
                               | _ \<Rightarrow> []) files),
            map ErrorProcessing (filter (\<lambda>p. fs p = OpenFails) files))"
  using assms
proof (induction files)
  case Nil
  show ?case by simp
next
  case (Cons p files)
  then show ?case by (cases "fs p") (simp_all split: prod.splits)
qed

theorem readable_files_give_whole_blocks_witness:
  "create_combined_file
     (\<lambda>p. if p = ''gone.py'' then OpenFails else ReadText ''x = 1'') [''a.py'', ''gone.py'', ''b.py'']
   = (header ''a.py'' @ fence_open @ ''x = 1'' @ footer
        @ header ''b.py'' @ fence_open @ ''x = 1'' @ footer,
      [ErrorProcessing ''gone.py''])"
  using readable_files_give_whole_blocks
    [of "[''a.py'', ''gone.py'', ''b.py'']"
        "\<lambda>p. if p = ''gone.py'' then OpenFails else ReadText ''x = 1''"]
  by simp

text \<open>
  Property X2. \<open>collect_files\<close> returns, in sorted order, exactly the joined paths of
  the walked files that the classifier accepts.
\<close>

theorem collect_files_sorted:
  "sorted (collect_files guess_type walk exts)
   \<and> set (collect_files guess_type walk exts) =
       {filepath. \<exists>root files file. (root, files) \<in> set walk \<and> file \<in> set files
                    \<and> filepath = path_join root file
                    \<and> is_text_file guess_type filepath exts}"
  by (auto simp: collect_files_def)

section \<open>Runs with a speed factor above 0.5 and up to 2\<close>

lemma process_chunks_valid:
  assumes "\<not> speed_invalid (speed_factor a)" and "\<forall>cmd. ffmpeg e cmd \<noteq> SpawnFailed"
  shows "invocations (fst (process_chunks e a n cs)) = map (build_cmd a) cs
       \<and> snd (process_chunks e a n cs) = Returned
       \<and> SpeedTooSmall \<notin> set (printed (fst (process_chunks e a n cs)))"
proof (induction cs)
  case Nil
  show ?case by simp
next
  case (Cons c cs)
  then show ?case using assms
    by (cases "ffmpeg e (build_cmd a c)") (auto simp: Let_def split: prod.splits)
qed

text \<open>
  Property X3. For every \<open>speed_factor\<close> with \<open>0.5 < speed_factor \<le> 2.0\<close>, when the
  directory can be made, the probe gives a non-zero duration, the chunk length is not
  zero and every transform can be started, the run is not aborted by the validation: it
  returns normally without the speed-factor message, invokes one transform per planned
  chunk, in plan order, and every invocation carries the single-stage chain
  \<open>[speed_factor]\<close>, or no filter when \<open>speed_factor = 1.0\<close>.
\<close>

theorem mid_speed_runs_every_chunk:
  assumes "1 / 2 < speed_factor a" and "speed_factor a \<le> 2"
    and "\<forall>cmd. ffmpeg e cmd \<noteq> SpawnFailed"
    and "mkdir_ok e (output_dir a)"
    and "get_duration e (input_file a) = (msgs, Inr total_duration)"
    and "total_duration \<noteq> 0" and "chunk_duration a \<noteq> 0"
    and "SpeedTooSmall \<notin> set msgs"
  shows "snd (process_audiobook e a) = Returned
       \<and> SpeedTooSmall \<notin> set (printed (fst (process_audiobook e a)))
       \<and> invocations (fst (process_audiobook e a))
           = map (build_cmd a)
               (chunk_plan total_duration (chunk_duration a) (start_chunk a) (max_chunks a))
       \<and> list_all (\<lambda>cmd. filter_a cmd
                             = (if speed_factor a = 1 then None else Some [speed_factor a]))
            (invocations (fst (process_audiobook e a)))"
proof -
  let ?n = "total_chunks total_duration (chunk_duration a * 60) (start_chunk a) (max_chunks a)"
  let ?plan = "chunk_plan total_duration (chunk_duration a) (start_chunk a) (max_chunks a)"
  have valid: "\<not> speed_invalid (speed_factor a)" using assms(1,2) by (rule speed_valid_mid)
  note pc = process_chunks_valid [OF valid assms(3), of ?n ?plan]
  note run = process_audiobook_run [OF assms(4-7)]
  have r: "snd (process_audiobook e a) = Returned" using run pc by simp
  have p: "SpeedTooSmall \<notin> set (printed (fst (process_audiobook e a)))"
    using run pc assms(8) by simp
  have i: "invocations (fst (process_audiobook e a)) = map (build_cmd a) ?plan"
    using run pc by simp
  have f: "filter_a (build_cmd a c) = (if speed_factor a = 1 then None else Some [speed_factor a])"
    for c using assms(1,2) by (simp add: build_cmd_def speed_filter_def tempo_chain_def)
  have l: "list_all (\<lambda>cmd. filter_a cmd
                             = (if speed_factor a = 1 then None else Some [speed_factor a]))
            (invocations (fst (process_audiobook e a)))"
    unfolding i using f by (simp add: list_all_iff)
  show ?thesis using r p i l by simp
qed

theorem mid_speed_runs_every_chunk_witness:
  "process_audiobook example_env (example_args\<lparr>speed_factor := 3 / 2\<rparr>)
     = ([Print (TotalDurationSeconds ''1500.000000''), Print (TotalDurationMinutes 25),
         Print (ProcessingChunks 1 3),
         Print (ProcessingChunk 1 3),
         Print (CommandEcho \<lparr>ss = 0, inp = ''book.m4b'', t = 600, filter_a = Some [3 / 2],
                  bitrate = ''192'', ar = ''44100'', out_dir = ''out'', out_index = 1\<rparr>),
         Invoke \<lparr>ss = 0, inp = ''book.m4b'', t = 600, filter_a = Some [3 / 2],
                  bitrate = ''192'', ar = ''44100'', out_dir = ''out'', out_index = 1\<rparr>,
         Print (ProcessingChunk 2 3),
         Print (CommandEcho \<lparr>ss = 600, inp = ''book.m4b'', t = 600, filter_a = Some [3 / 2],
                  bitrate = ''192'', ar = ''44100'', out_dir = ''out'', out_index = 2\<rparr>),
         Invoke \<lparr>ss = 600, inp = ''book.m4b'', t = 600, filter_a = Some [3 / 2],
                  bitrate = ''192'', ar = ''44100'', out_dir = ''out'', out_index = 2\<rparr>,
         Print (ProcessingChunk 3 3),
         Print (CommandEcho \<lparr>ss = 1200, inp = ''book.m4b'', t = 300, filter_a = Some [3 / 2],
                  bitrate = ''192'', ar = ''44100'', out_dir = ''out'', out_index = 3\<rparr>),
         Invoke \<lparr>ss = 1200, inp = ''book.m4b'', t = 300, filter_a = Some [3 / 2],
                  bitrate = ''192'', ar = ''44100'', out_dir = ''out'', out_index = 3\<rparr>],
        Returned)
   \<and> map filter_a (invocations (fst (process_audiobook example_env
          (example_args\<lparr>speed_factor := 3 / 2\<rparr>))))
       = [Some [3 / 2], Some [3 / 2], Some [3 / 2]]"
proof -
  let ?a = "example_args\<lparr>speed_factor := 3 / 2\<rparr>"
  have g: "get_duration example_env (input_file ?a)
             = ([TotalDurationSeconds ''1500.000000''], Inr 1500)"
    by (simp add: get_duration_def example_env_def rstrip_def py_isspace_def)
  have m: "mkdir_ok example_env (output_dir ?a)" by (simp add: example_env_def)
  have s: "\<forall>cmd. ffmpeg example_env cmd \<noteq> SpawnFailed" by (simp add: example_env_def)
  have c: "chunk_duration ?a \<noteq> 0" by (simp add: example_args_def)
  have run: "process_audiobook example_env ?a
     = ([Print (TotalDurationSeconds ''1500.000000''), Print (TotalDurationMinutes 25),
         Print (ProcessingChunks 1 3),
         Print (ProcessingChunk 1 3),
         Print (CommandEcho \<lparr>ss = 0, inp = ''book.m4b'', t = 600, filter_a = Some [3 / 2],
                  bitrate = ''192'', ar = ''44100'', out_dir = ''out'', out_index = 1\<rparr>),
         Invoke \<lparr>ss = 0, inp = ''book.m4b'', t = 600, filter_a = Some [3 / 2],
                  bitrate = ''192'', ar = ''44100'', out_dir = ''out'', out_index = 1\<rparr>,
         Print (ProcessingChunk 2 3),
         Print (CommandEcho \<lparr>ss = 600, inp = ''book.m4b'', t = 600, filter_a = Some [3 / 2],
                  bitrate = ''192'', ar = ''44100'', out_dir = ''out'', out_index = 2\<rparr>),
         Invoke \<lparr>ss = 600, inp = ''book.m4b'', t = 600, filter_a = Some [3 / 2],
                  bitrate = ''192'', ar = ''44100'', out_dir = ''out'', out_index = 2\<rparr>,
         Print (ProcessingChunk 3 3),
         Print (CommandEcho \<lparr>ss = 1200, inp = ''book.m4b'', t = 300, filter_a = Some [3 / 2],
                  bitrate = ''192'', ar = ''44100'', out_dir = ''out'', out_index = 3\<rparr>),
         Invoke \<lparr>ss = 1200, inp = ''book.m4b'', t = 300, filter_a = Some [3 / 2],
                  bitrate = ''192'', ar = ''44100'', out_dir = ''out'', out_index = 3\<rparr>],
        Returned)"
    by (simp add: process_audiobook_def get_duration_def rstrip_def py_isspace_def
        example_args_def chunk_plan_def total_chunks_def plan_chunk_def upto_rec1
        speed_invalid_def py_fmod_def build_cmd_def example_env_def Let_def
        speed_filter_def tempo_chain_def)
  have h: "1 / 2 < speed_factor ?a" "speed_factor ?a \<le> 2" "(1500 :: real) \<noteq> 0"
    "SpeedTooSmall \<notin> set [TotalDurationSeconds ''1500.000000'']"
    by simp_all
  have every: "invocations (fst (process_audiobook example_env ?a))
           = map (build_cmd ?a)
               (chunk_plan 1500 (chunk_duration ?a) (start_chunk ?a) (max_chunks ?a))"
    using mid_speed_runs_every_chunk [OF h(1,2) s m g h(3) c h(4)] by blast
  have fs: "map filter_a (invocations (fst (process_audiobook example_env ?a)))
       = [Some [3 / 2], Some [3 / 2], Some [3 / 2]]"
    unfolding every
    by (simp add: example_args_def chunk_plan_def total_chunks_def plan_chunk_def upto_rec1
        build_cmd_def speed_filter_def tempo_chain_def)
  show ?thesis using run fs by blast
qed

end
